theory Spec2Isabelle
  imports Main "HOL-Library.List_Lexorder" "HOL-Library.Product_Lexorder"
begin

section \<open>The request: jobs and ad-hoc constraints (simplesat/request.py)\<close>

text \<open>
  \<^verbatim>\<open>class JobType(Enum)\<close> has the three members install, remove and update. The
  constructors carry the class name, since \<^verbatim>\<open>Request\<close> has methods of the same names.
\<close>

datatype JobType = JobType_install | JobType_remove | JobType_update

text \<open>
  \<^verbatim>\<open>_Job\<close> is an attrs class with the fields \<^verbatim>\<open>requirement\<close> and \<^verbatim>\<open>kind\<close>. Its
  validators raise unless the requirement is a \<^verbatim>\<open>Requirement\<close> and the kind a
  \<^verbatim>\<open>JobType\<close>; here the types say so. The class \<^verbatim>\<open>Requirement\<close> comes from
  simplesat/constraints.py; the request never looks inside it, so it is the type
  parameter \<open>'r\<close>.
\<close>

record 'r Job =
  requirement :: 'r
  kind :: JobType

text \<open>
  \<^verbatim>\<open>AdhocConstraints\<close>: three sets of package names, each built by its own
  \<^verbatim>\<open>Factory(set)\<close>, so no two instances and no two fields share a set.
\<close>

record AdhocConstraints =
  allow_newer :: "string set"
  allow_any :: "string set"
  allow_older :: "string set"

text \<open>The property \<^verbatim>\<open>targets\<close>: \<^verbatim>\<open>set.union(self.allow_newer, self.allow_any, self.allow_older)\<close>.\<close>

definition targets :: "AdhocConstraints \<Rightarrow> string set" where
  "targets c = allow_newer c \<union> allow_any c \<union> allow_older c"

text \<open>
  A \<^verbatim>\<open>Request\<close> object holds the list \<^verbatim>\<open>jobs\<close> and one \<^verbatim>\<open>AdhocConstraints\<close>. Its
  methods mutate the object and return nothing; here each takes the request and
  returns the updated one.
\<close>

record 'r Request =
  jobs :: "'r Job list"
  adhoc_constraints :: AdhocConstraints

text \<open>\<^verbatim>\<open>Request.__init__\<close>: an empty job list and the default \<^verbatim>\<open>AdhocConstraints()\<close>.\<close>

definition Request_init :: "'r Request" where
  "Request_init =
     \<lparr>jobs = [],
      adhoc_constraints = \<lparr>allow_newer = {}, allow_any = {}, allow_older = {}\<rparr>\<rparr>"

text \<open>\<^verbatim>\<open>Request._add_job\<close>: \<^verbatim>\<open>self.jobs.append(_Job(requirement, job_type))\<close>.\<close>

definition Request_add_job :: "'r \<Rightarrow> JobType \<Rightarrow> 'r Request \<Rightarrow> 'r Request" where
  "Request_add_job req job_type rq =
     rq\<lparr>jobs := jobs rq @ [\<lparr>requirement = req, kind = job_type\<rparr>]\<rparr>"

definition Request_install :: "'r \<Rightarrow> 'r Request \<Rightarrow> 'r Request" where
  "Request_install req rq = Request_add_job req JobType_install rq"

definition Request_remove :: "'r \<Rightarrow> 'r Request \<Rightarrow> 'r Request" where
  "Request_remove req rq = Request_add_job req JobType_remove rq"

definition Request_update :: "'r \<Rightarrow> 'r Request \<Rightarrow> 'r Request" where
  "Request_update req rq = Request_add_job req JobType_update rq"

text \<open>\<^verbatim>\<open>Request.allow_newer\<close> and its two siblings: \<^verbatim>\<open>set.add\<close> on one field.\<close>

definition Request_allow_newer :: "string \<Rightarrow> 'r Request \<Rightarrow> 'r Request" where
  "Request_allow_newer package_name rq =
     rq\<lparr>adhoc_constraints :=
          (adhoc_constraints rq)\<lparr>allow_newer := insert package_name (allow_newer (adhoc_constraints rq))\<rparr>\<rparr>"

definition Request_allow_any :: "string \<Rightarrow> 'r Request \<Rightarrow> 'r Request" where
  "Request_allow_any package_name rq =
     rq\<lparr>adhoc_constraints :=
          (adhoc_constraints rq)\<lparr>allow_any := insert package_name (allow_any (adhoc_constraints rq))\<rparr>\<rparr>"

definition Request_allow_older :: "string \<Rightarrow> 'r Request \<Rightarrow> 'r Request" where
  "Request_allow_older package_name rq =
     rq\<lparr>adhoc_constraints :=
          (adhoc_constraints rq)\<lparr>allow_older := insert package_name (allow_older (adhoc_constraints rq))\<rparr>\<rparr>"

text \<open>
  A caller's sequence of method calls on one request, as data: one constructor for each
  public method, and the run of a sequence from left to right.
\<close>

datatype 'r call =
    Call_install 'r
  | Call_remove 'r
  | Call_update 'r
  | Call_allow_newer string
  | Call_allow_any string
  | Call_allow_older string

fun run_call :: "'r call \<Rightarrow> 'r Request \<Rightarrow> 'r Request" where
  "run_call (Call_install req) rq = Request_install req rq"
| "run_call (Call_remove req) rq = Request_remove req rq"
| "run_call (Call_update req) rq = Request_update req rq"
| "run_call (Call_allow_newer n) rq = Request_allow_newer n rq"
| "run_call (Call_allow_any n) rq = Request_allow_any n rq"
| "run_call (Call_allow_older n) rq = Request_allow_older n rq"

fun run_calls :: "'r call list \<Rightarrow> 'r Request \<Rightarrow> 'r Request" where
  "run_calls [] rq = rq"
| "run_calls (c # cs) rq = run_calls cs (run_call c rq)"

text \<open>The job a call adds, if it adds one.\<close>

fun job_of_call :: "'r call \<Rightarrow> 'r Job option" where
  "job_of_call (Call_install req) = Some \<lparr>requirement = req, kind = JobType_install\<rparr>"
| "job_of_call (Call_remove req) = Some \<lparr>requirement = req, kind = JobType_remove\<rparr>"
| "job_of_call (Call_update req) = Some \<lparr>requirement = req, kind = JobType_update\<rparr>"
| "job_of_call (Call_allow_newer n) = None"
| "job_of_call (Call_allow_any n) = None"
| "job_of_call (Call_allow_older n) = None"

section \<open>Versions, requirements and packages\<close>

text \<open>
  Modelled from the spec: the constraint and requirement values of
  simplesat/constraints.py, which is not among the sources. A version is an opaque value
  with a total order (the type parameter \<open>'v\<close>); a constraint is one of the eight
  variants of the data model; a requirement is a package name with its constraints,
  kept as a list.
\<close>

datatype 'v Constraint =
    Any
  | EqualTo 'v
  | NotEqualTo 'v
  | GreaterThan 'v
  | GreaterEqual 'v
  | LessThan 'v
  | LessEqual 'v
  | CompatibleWith 'v

record 'v Requirement =
  req_name :: string
  constraints :: "'v Constraint list"

text \<open>
  Modelled from the spec: the package value (name, version, install_requires, conflicts,
  provides); the package class is not among the sources.
\<close>

record 'v Package =
  name :: string
  version :: 'v
  install_requires :: "'v Requirement list"
  conflicts :: "'v Requirement list"
  provides :: "'v Requirement list"

text \<open>
  Modelled from the spec: what the requirement algebra (4.A) takes from the version
  library, which the solver treats as opaque: the compatibility class of a version, and
  \<^verbatim>\<open>is_empty(req)\<close>, whether no version at all matches a requirement. Both are
  parameters of everything below.
\<close>

record ('v, 'c) Algebra =
  compat_class :: "'v \<Rightarrow> 'c"
  is_empty :: "'v Requirement \<Rightarrow> bool"

text \<open>
  Modelled from the spec: \<^verbatim>\<open>matches(req, version)\<close> of the requirement algebra (4.A),
  the conjunction over the requirement's constraints. \<^verbatim>\<open>CompatibleWith(v)\<close> matches
  any \<open>w\<close> with \<open>w \<ge> v\<close> in the compatibility class of \<open>v\<close>.
\<close>

fun constraint_matches :: "('v::linorder, 'c) Algebra \<Rightarrow> 'v Constraint \<Rightarrow> 'v \<Rightarrow> bool" where
  "constraint_matches alg Any w = True"
| "constraint_matches alg (EqualTo v) w = (w = v)"
| "constraint_matches alg (NotEqualTo v) w = (w \<noteq> v)"
| "constraint_matches alg (GreaterThan v) w = (v < w)"
| "constraint_matches alg (GreaterEqual v) w = (v \<le> w)"
| "constraint_matches alg (LessThan v) w = (w < v)"
| "constraint_matches alg (LessEqual v) w = (w \<le> v)"
| "constraint_matches alg (CompatibleWith v) w = (v \<le> w \<and> compat_class alg w = compat_class alg v)"

definition matches :: "('v::linorder, 'c) Algebra \<Rightarrow> 'v Requirement \<Rightarrow> 'v \<Rightarrow> bool" where
  "matches alg r w = list_all (\<lambda>c. constraint_matches alg c w) (constraints r)"

text \<open>
  Modelled from the spec: \<^verbatim>\<open>intersect(req, req)\<close> of the requirement algebra (4.A).
  Matching is the conjunction over the constraints, so the intersection of two
  requirements of one name has the constraints of both; requirements of different names
  have none (the spec's bottom).
\<close>

definition intersect :: "'v Requirement \<Rightarrow> 'v Requirement \<Rightarrow> 'v Requirement option" where
  "intersect r s =
     (if req_name r = req_name s
      then Some \<lparr>req_name = req_name r, constraints = constraints r @ constraints s\<rparr>
      else None)"

text \<open>
  Modelled from the spec: the candidates of a requirement. A package is one by its own
  name and version, or by its \<^verbatim>\<open>provides\<close>, which contribute to
  \<^verbatim>\<open>ids_matching\<close> and not to the uniqueness per name (design notes, b): a package
  provides for a requirement when one of the requirements it provides has an
  intersection with it that is not empty.
\<close>

definition package_matches :: "('v::linorder, 'c) Algebra \<Rightarrow> 'v Requirement \<Rightarrow> 'v Package \<Rightarrow> bool" where
  "package_matches alg r p = (name p = req_name r \<and> matches alg r (version p))"

definition package_provides :: "('v::linorder, 'c) Algebra \<Rightarrow> 'v Requirement \<Rightarrow> 'v Package \<Rightarrow> bool" where
  "package_provides alg r p =
     list_ex (\<lambda>pr. case intersect pr r of None \<Rightarrow> False | Some x \<Rightarrow> \<not> is_empty alg x)
       (provides p)"

definition is_candidate :: "('v::linorder, 'c) Algebra \<Rightarrow> 'v Requirement \<Rightarrow> 'v Package \<Rightarrow> bool" where
  "is_candidate alg r p = (package_matches alg r p \<or> package_provides alg r p)"

text \<open>Modelled from the spec: the identity of a package is its name and version.\<close>

definition same_identity :: "'v Package \<Rightarrow> 'v Package \<Rightarrow> bool" where
  "same_identity p q = (name p = name q \<and> version p = version q)"

section \<open>The pool\<close>

text \<open>
  Modelled from the spec: the pool (4.C; simplesat/pool.py is not among the sources). It
  interns every distinct package of its repositories, earlier repositories first, and
  numbers them densely from 1 (invariant I5): the pool is the list of the interned
  packages, and the id of a package is its position, counted from 1.
\<close>

type_synonym 'v Pool = "'v Package list"

fun intern :: "'v Pool \<Rightarrow> 'v Package list \<Rightarrow> 'v Pool" where
  "intern pool [] = pool"
| "intern pool (p # ps) =
     (if list_ex (same_identity p) pool then intern pool ps else intern (pool @ [p]) ps)"

definition Pool :: "'v Package list list \<Rightarrow> 'v Pool" where
  "Pool repositories = intern [] (concat repositories)"

definition pool_ids :: "'v Pool \<Rightarrow> nat list" where
  "pool_ids pool = [1..<Suc (length pool)]"

text \<open>
  Modelled from the spec: \<^verbatim>\<open>ids_matching(requirement)\<close>, the ids of the candidates,
  newest first, then by repository priority and ingestion order: a stable sort of the
  candidates, taken in pool order, by descending version.
\<close>

fun insert_newest ::
  "nat \<times> ('v::linorder) Package \<Rightarrow> (nat \<times> 'v Package) list \<Rightarrow> (nat \<times> 'v Package) list" where
  "insert_newest x [] = [x]"
| "insert_newest x (y # ys) =
     (if version (snd y) \<le> version (snd x) then x # y # ys else y # insert_newest x ys)"

definition newest_first :: "(nat \<times> ('v::linorder) Package) list \<Rightarrow> (nat \<times> 'v Package) list" where
  "newest_first xs = foldr insert_newest xs []"

definition ids_matching :: "('v::linorder, 'c) Algebra \<Rightarrow> 'v Pool \<Rightarrow> 'v Requirement \<Rightarrow> nat list" where
  "ids_matching alg pool r =
     map fst (newest_first (filter (\<lambda>(i, p). is_candidate alg r p) (enumerate 1 pool)))"

text \<open>Modelled from the spec: \<^verbatim>\<open>ids_with_name(name)\<close>, in pool order.\<close>

definition ids_with_name :: "'v Pool \<Rightarrow> string \<Rightarrow> nat list" where
  "ids_with_name pool n = map fst (filter (\<lambda>(i, p). name p = n) (enumerate 1 pool))"

text \<open>Modelled from the spec: the ids of the pool's packages that are installed.\<close>

definition installed_ids :: "'v Pool \<Rightarrow> 'v Package list \<Rightarrow> nat list" where
  "installed_ids pool installed =
     map fst (filter (\<lambda>(i, p). list_ex (same_identity p) installed) (enumerate 1 pool))"

section \<open>The rules generator\<close>

text \<open>
  Modelled from the spec: a clause, a disjunction of literals with a reason tag (data
  model). The literal \<open>+id\<close> says that the package is installed, \<open>-id\<close> that it is not.
\<close>

datatype 'v ReasonTag =
    PackageRule
  | DependencyRule "'v Package" "'v Requirement"
  | ConflictRule "'v Package" "'v Package"
  | JobRule "'v Requirement Job"
  | InstalledRule
  | Learned

record 'v Clause =
  lits :: "int list"
  reason :: "'v ReasonTag"

text \<open>
  Modelled from the spec: the two failures of \<^verbatim>\<open>solve\<close> (simplesat/errors.py is not
  among the sources). \<^verbatim>\<open>MissingInstallRequires\<close> carries the package and the unmet
  requirement. The rules a \<^verbatim>\<open>SatisfiabilityError\<close> cites come from the diagnostics
  (4.I), which are advisory and not modelled, so it carries nothing here.
\<close>

datatype 'v error = SatisfiabilityError | MissingInstallRequires "'v Package" "'v Requirement"

text \<open>
  Modelled from the spec: the dependency rules (4.D, item 1). For each package \<open>p\<close> of
  the pool, in pool order, and each requirement \<open>r\<close> of its \<^verbatim>\<open>install_requires\<close>, the
  clause \<open>\<not>id(p) \<or> id(q\<^sub>1) \<or> \<dots> \<or> id(q\<^sub>k)\<close> over \<^verbatim>\<open>ids_matching(r)\<close>, tagged with the
  package and the requirement; with no candidate this is the unit clause \<open>\<not>id(p)\<close>. In
  strict mode no such unit clause is made: the first package with a requirement without
  candidate ends the generation with \<^verbatim>\<open>MissingInstallRequires\<close>.
\<close>

definition requirement_pairs :: "'v Pool \<Rightarrow> (nat \<times> 'v Package \<times> 'v Requirement) list" where
  "requirement_pairs pool =
     concat (map (\<lambda>(i, p). map (\<lambda>r. (i, p, r)) (install_requires p)) (enumerate 1 pool))"

fun dependency_rules ::
  "bool \<Rightarrow> ('v::linorder, 'c) Algebra \<Rightarrow> 'v Pool \<Rightarrow> (nat \<times> 'v Package \<times> 'v Requirement) list
     \<Rightarrow> 'v error + 'v Clause list" where
  "dependency_rules strict alg pool [] = Inr []"
| "dependency_rules strict alg pool ((i, p, r) # rest) =
     (if ids_matching alg pool r = [] \<and> strict then Inl (MissingInstallRequires p r)
      else (case dependency_rules strict alg pool rest of
              Inl e \<Rightarrow> Inl e
            | Inr cs \<Rightarrow>
                Inr (\<lparr>lits = - int i # map int (ids_matching alg pool r),
                      reason = DependencyRule p r\<rparr> # cs)))"

text \<open>
  Modelled from the spec: the conflict rules (4.D, item 2): for each package \<open>p\<close>
  conflicting with a requirement \<open>r\<close> and each \<open>q\<close> of \<^verbatim>\<open>ids_matching(r)\<close> other than
  \<open>id(p)\<close>, the clause \<open>\<not>id(p) \<or> \<not>q\<close>.
\<close>

definition conflict_rules :: "('v::linorder, 'c) Algebra \<Rightarrow> 'v Pool \<Rightarrow> 'v Clause list" where
  "conflict_rules alg pool =
     concat (map (\<lambda>(i, p).
       concat (map (\<lambda>r.
         map (\<lambda>q. \<lparr>lits = [- int i, - int q], reason = ConflictRule p (pool ! (q - 1))\<rparr>)
           (filter (\<lambda>q. q \<noteq> i) (ids_matching alg pool r)))
         (conflicts p)))
       (enumerate 1 pool))"

text \<open>
  Modelled from the spec: the same-name exclusion (4.D, item 3): for every pair of ids
  with one name, the clause \<open>\<not>a \<or> \<not>b\<close>. The installed rules (item 4) and the ad-hoc
  constraints (item 6) bias the policy and add no clause.
\<close>

definition same_name_rules :: "'v Pool \<Rightarrow> 'v Clause list" where
  "same_name_rules pool =
     concat (map (\<lambda>(a, p).
       map (\<lambda>(b, q). \<lparr>lits = [- int a, - int b], reason = PackageRule\<rparr>)
         (filter (\<lambda>(b, q). a < b \<and> name q = name p) (enumerate 1 pool)))
       (enumerate 1 pool))"

text \<open>
  Modelled from the spec: the job rules (4.D, item 5). An install job gives the
  disjunction over \<^verbatim>\<open>ids_matching(r)\<close>; without a candidate that is the empty clause,
  which no assignment satisfies (the spec's immediate UNSAT: by its section 7 rule
  generation itself raises only the missing dependency of strict mode). A remove job
  gives the unit clause \<open>\<not>id\<close> for every installed id its requirement matches. An
  update job is an install job, unless its requirement omits the version: then it gives
  one disjunction, over the ids of that name, for each installed package whose name is
  the requirement's.
\<close>

definition omits_version :: "'v Requirement \<Rightarrow> bool" where
  "omits_version r = list_all (\<lambda>c. c = Any) (constraints r)"

definition install_rule :: "('v::linorder, 'c) Algebra \<Rightarrow> 'v Pool \<Rightarrow> 'v Requirement Job \<Rightarrow> 'v Clause" where
  "install_rule alg pool j =
     \<lparr>lits = map int (ids_matching alg pool (requirement j)), reason = JobRule j\<rparr>"

fun job_rules ::
  "('v::linorder, 'c) Algebra \<Rightarrow> 'v Pool \<Rightarrow> 'v Package list \<Rightarrow> 'v Requirement Job \<Rightarrow> 'v Clause list" where
  "job_rules alg pool installed j =
     (case kind j of
        JobType_install \<Rightarrow> [install_rule alg pool j]
      | JobType_remove \<Rightarrow>
          map (\<lambda>i. \<lparr>lits = [- int i], reason = JobRule j\<rparr>)
            (filter (\<lambda>i. i \<in> set (installed_ids pool installed))
               (ids_matching alg pool (requirement j)))
      | JobType_update \<Rightarrow>
          (if omits_version (requirement j)
           then map (\<lambda>n. \<lparr>lits = map int (ids_with_name pool n), reason = JobRule j\<rparr>)
                  (remdups (map name
                     (filter (\<lambda>p. name p = req_name (requirement j)) installed)))
           else [install_rule alg pool j]))"

text \<open>
  Modelled from the spec: the rules generator (4.D), the clauses of the items in the
  spec's order, or the failure of strict mode.
\<close>

definition generate_rules ::
  "bool \<Rightarrow> ('v::linorder, 'c) Algebra \<Rightarrow> 'v Pool \<Rightarrow> 'v Package list \<Rightarrow> 'v Requirement Request
     \<Rightarrow> 'v error + 'v Clause list" where
  "generate_rules strict alg pool installed request =
     (case dependency_rules strict alg pool (requirement_pairs pool) of
        Inl e \<Rightarrow> Inl e
      | Inr deps \<Rightarrow>
          Inr (deps @ conflict_rules alg pool @ same_name_rules pool
               @ concat (map (job_rules alg pool installed) (jobs request))))"

section \<open>The SAT core and the policy\<close>

text \<open>
  Modelled from the spec: the assignment, a partial map from ids to truth values, and the
  value of a literal and of a clause under it.
\<close>

type_synonym assignment = "nat \<rightharpoonup> bool"

definition lit_var :: "int \<Rightarrow> nat" where
  "lit_var l = nat \<bar>l\<bar>"

definition lit_value :: "assignment \<Rightarrow> int \<Rightarrow> bool option" where
  "lit_value a l = map_option (\<lambda>b. if 0 < l then b else \<not> b) (a (lit_var l))"

definition clause_satisfied :: "assignment \<Rightarrow> 'v Clause \<Rightarrow> bool" where
  "clause_satisfied a c = list_ex (\<lambda>l. lit_value a l = Some True) (lits c)"

definition clause_falsified :: "assignment \<Rightarrow> 'v Clause \<Rightarrow> bool" where
  "clause_falsified a c = list_all (\<lambda>l. lit_value a l = Some False) (lits c)"

text \<open>
  Modelled from the spec: unit propagation (4.E). A clause that is not satisfied and has
  one unassigned literal left forces that literal.
\<close>

definition unit_literal :: "assignment \<Rightarrow> 'v Clause \<Rightarrow> int option" where
  "unit_literal a c =
     (if clause_satisfied a c then None
      else (case remdups (filter (\<lambda>l. lit_value a l = None) (lits c)) of
              [l] \<Rightarrow> Some l
            | _ \<Rightarrow> None))"

fun find_unit :: "assignment \<Rightarrow> 'v Clause list \<Rightarrow> int option" where
  "find_unit a [] = None"
| "find_unit a (c # cs) =
     (case unit_literal a c of Some l \<Rightarrow> Some l | None \<Rightarrow> find_unit a cs)"

definition unassigned :: "assignment \<Rightarrow> nat list \<Rightarrow> nat list" where
  "unassigned a vs = filter (\<lambda>v. a v = None) vs"

text \<open>
  Modelled from the spec: the policy (4.F), consulted for each decision: given the
  assignment it returns an unassigned literal. Which literal it prefers depends on the
  jobs, the installed packages, the ad-hoc constraints and the activities; nothing below
  depends on that choice, so a policy is any ranking of the ids (the least rank is
  branched on, the first in pool order among equals) with any polarity.
\<close>

record Policy =
  preference :: "assignment \<Rightarrow> nat \<Rightarrow> nat"
  polarity :: "assignment \<Rightarrow> nat \<Rightarrow> bool"

definition decide :: "Policy \<Rightarrow> assignment \<Rightarrow> nat list \<Rightarrow> nat" where
  "decide pol a us = arg_min_list (preference pol a) us"

text \<open>
  Modelled from the spec: the SAT core (4.E), as the search its states describe:
  propagate; on a falsified clause give the branch up; when every id is assigned, check
  the clauses and return the assignment; otherwise branch on the policy's literal, and
  on its negation when the first branch has no solution. The search ends without an
  assignment exactly in the spec's state Unsatisfiable. Watched literals, learned
  clauses, backjumping past more than one level, restarts, activities and the reduction
  of the clause database make the spec's search faster and are left out: the search
  here visits the assignments they would skip and finds them in conflict.
\<close>

definition clause_vars :: "'v Clause list \<Rightarrow> nat set" where
  "clause_vars cs = lit_var ` (\<Union>c \<in> set cs. set (lits c))"

definition open_vars :: "'v Clause list \<Rightarrow> nat list \<Rightarrow> assignment \<Rightarrow> nat set" where
  "open_vars cs vs a = {v \<in> set vs \<union> clause_vars cs. a v = None}"

function dpll :: "Policy \<Rightarrow> 'v Clause list \<Rightarrow> nat list \<Rightarrow> assignment \<Rightarrow> assignment option" where
  "dpll pol cs vs a =
     (if list_ex (clause_falsified a) cs then None
      else (case find_unit a cs of
              Some l \<Rightarrow> dpll pol cs vs (a(lit_var l \<mapsto> 0 < l))
            | None \<Rightarrow>
                (if unassigned a vs = []
                 then (if list_all (clause_satisfied a) cs then Some a else None)
                 else (case dpll pol cs vs
                              (a(decide pol a (unassigned a vs)
                                   \<mapsto> polarity pol a (decide pol a (unassigned a vs)))) of
                         Some m \<Rightarrow> Some m
                       | None \<Rightarrow>
                           dpll pol cs vs
                             (a(decide pol a (unassigned a vs)
                                  \<mapsto> \<not> polarity pol a (decide pol a (unassigned a vs))))))))"
  by pat_completeness auto

text \<open>The search terminates: every call assigns an id that had no value.\<close>

lemma unit_literal_open:
  "unit_literal a c = Some l \<Longrightarrow> l \<in> set (lits c) \<and> a (lit_var l) = None"
proof -
  assume h: "unit_literal a c = Some l"
  then have "remdups (filter (\<lambda>l. lit_value a l = None) (lits c)) = [l]"
    by (auto simp: unit_literal_def split: if_splits list.splits)
  then have "l \<in> set (remdups (filter (\<lambda>l. lit_value a l = None) (lits c)))" by simp
  then show ?thesis by (auto simp: lit_value_def)
qed

lemma find_unit_open:
  "find_unit a cs = Some l \<Longrightarrow> lit_var l \<in> clause_vars cs \<and> a (lit_var l) = None"
  by (induction cs) (auto simp: clause_vars_def split: option.splits dest: unit_literal_open)

lemma decide_unassigned:
  "unassigned a vs \<noteq> [] \<Longrightarrow>
     decide pol a (unassigned a vs) \<in> set vs \<and> a (decide pol a (unassigned a vs)) = None"
proof -
  assume "unassigned a vs \<noteq> []"
  then have "decide pol a (unassigned a vs) \<in> set (unassigned a vs)"
    unfolding decide_def by (rule arg_min_list_in)
  then show ?thesis by (simp add: unassigned_def)
qed

lemma finite_open_vars: "finite (open_vars cs vs a)"
  by (simp add: open_vars_def clause_vars_def)

lemma open_vars_assign:
  "v \<in> set vs \<union> clause_vars cs \<Longrightarrow> a v = None \<Longrightarrow>
     card (open_vars cs vs (a(v \<mapsto> b))) < card (open_vars cs vs a)"
proof -
  assume v: "v \<in> set vs \<union> clause_vars cs" and n: "a v = None"
  have "open_vars cs vs (a(v \<mapsto> b)) \<subset> open_vars cs vs a"
    using v n by (auto simp: open_vars_def)
  then show ?thesis by (rule psubset_card_mono [OF finite_open_vars])
qed

lemma find_unit_decreases:
  "find_unit a cs = Some l \<Longrightarrow>
     card (open_vars cs vs (a(lit_var l \<mapsto> b))) < card (open_vars cs vs a)"
  using find_unit_open [of a cs l] by (simp add: open_vars_assign)

lemma decide_decreases:
  "unassigned a vs \<noteq> [] \<Longrightarrow>
     card (open_vars cs vs (a(decide pol a (unassigned a vs) \<mapsto> b))) < card (open_vars cs vs a)"
  using decide_unassigned [of a vs pol] by (simp add: open_vars_assign)

termination dpll
  by (relation "measure (\<lambda>(pol, cs, vs, a). card (open_vars cs vs a))")
    (simp_all add: find_unit_decreases decide_decreases)

declare dpll.simps [simp del]

section \<open>The solver\<close>

text \<open>
  Modelled from the spec: \<^verbatim>\<open>solve\<close> (section 6; simplesat/dependency_solver.py is not
  among the sources), along the data flow of section 2: the rules of the pool, the
  installed packages and the request; the SAT search from the empty assignment over the
  pool's ids; the transaction of the assignment found. A failure of the rules generator
  ends the solve before the search; a search without solution raises
  \<^verbatim>\<open>SatisfiabilityError\<close>. The transaction builder and the pruner (4.G, 4.H) run on the
  assignment after both and are the parameter \<open>build\<close>.
\<close>

definition solve ::
  "(assignment \<Rightarrow> 't) \<Rightarrow> Policy \<Rightarrow> bool \<Rightarrow> ('v::linorder, 'c) Algebra \<Rightarrow> 'v Pool \<Rightarrow> 'v Package list
     \<Rightarrow> 'v Requirement Request \<Rightarrow> 'v error + 't" where
  "solve build pol strict alg pool installed request =
     (case generate_rules strict alg pool installed request of
        Inl e \<Rightarrow> Inl e
      | Inr cs \<Rightarrow>
          (case dpll pol cs (pool_ids pool) Map.empty of
             None \<Rightarrow> Inl SatisfiabilityError
           | Some a \<Rightarrow> Inr (build a)))"

text \<open>
  The ids of the packages that cannot be installed for want of a candidate, to depth
  \<open>k\<close>: at depth 1 the packages with a requirement without candidate, at depth \<open>k + 1\<close>
  those with a requirement all of whose candidates are among the ids of depth \<open>k\<close>.
\<close>

fun unmet_ids :: "('v::linorder, 'c) Algebra \<Rightarrow> 'v Pool \<Rightarrow> nat \<Rightarrow> nat list" where
  "unmet_ids alg pool 0 = []"
| "unmet_ids alg pool (Suc k) =
     map fst (filter (\<lambda>(i, p).
       list_ex (\<lambda>r. list_all (\<lambda>q. q \<in> set (unmet_ids alg pool k)) (ids_matching alg pool r))
         (install_requires p))
       (enumerate 1 pool))"

section \<open>The fixtures of the solver's tests\<close>

text \<open>
  The tests write packages and requirements as strings (\<^verbatim>\<open>numpy 2.0.0-1; depends (MKL)\<close>)
  and parse them with okonomiyaki and simplesat/constraints.py. Here they are written
  parsed: a version is the list of the numbers of its upstream part with its build
  number, ordered lexicographically, and its compatibility class is the upstream part.
\<close>

type_synonym enpkg_version = "nat list \<times> nat"

text \<open>
  The algebra of these versions: the class of a version is its upstream part. Whether a
  requirement is empty stays the parameter \<open>e\<close>; the packages of the tests provide
  nothing, so no candidate below depends on it.
\<close>

definition enpkg_algebra ::
  "(enpkg_version Requirement \<Rightarrow> bool) \<Rightarrow> (enpkg_version, nat list) Algebra" where
  "enpkg_algebra e = \<lparr>compat_class = fst, is_empty = e\<rparr>"

definition mk_requirement :: "string \<Rightarrow> enpkg_version Constraint list \<Rightarrow> enpkg_version Requirement" where
  "mk_requirement n cs = \<lparr>req_name = n, constraints = cs\<rparr>"

definition mk_package ::
  "string \<Rightarrow> enpkg_version \<Rightarrow> enpkg_version Requirement list \<Rightarrow> enpkg_version Package" where
  "mk_package n v deps =
     \<lparr>name = n, version = v, install_requires = deps, conflicts = [], provides = []\<rparr>"

text \<open>
  \<^verbatim>\<open>test_missing_indirect_dependency_fails\<close>: the repository, the pool of
  \<^verbatim>\<open>resolve\<close> (the repository, then the empty installed repository) and the request.
\<close>

definition indirect_numpy200 :: "enpkg_version Package" where
  "indirect_numpy200 = mk_package ''numpy'' ([2, 0, 0], 1) [mk_requirement ''MKL'' []]"

definition indirect_repository :: "enpkg_version Package list" where
  "indirect_repository =
     [mk_package ''MKL'' ([10, 3], 1) [mk_requirement ''MISSING'' []],
      mk_package ''numpy'' ([1, 9, 2], 1) [],
      indirect_numpy200]"

definition indirect_pool :: "enpkg_version Pool" where
  "indirect_pool = Pool [indirect_repository, []]"

definition numpy_ge_2_0 :: "enpkg_version Requirement" where
  "numpy_ge_2_0 = mk_requirement ''numpy'' [GreaterEqual ([2, 0], 0)]"

definition indirect_request :: "enpkg_version Requirement Request" where
  "indirect_request = Request_install numpy_ge_2_0 Request_init"

text \<open>\<^verbatim>\<open>test_missing_dependency_strict\<close>: the repository, the pool and the request.\<close>

definition nonexistent :: "enpkg_version Requirement" where
  "nonexistent = mk_requirement ''nonexistent'' []"

definition strict_numpy200 :: "enpkg_version Package" where
  "strict_numpy200 = mk_package ''numpy'' ([2, 0, 0], 1) [nonexistent]"

definition strict_repository :: "enpkg_version Package list" where
  "strict_repository =
     [mk_package ''MKL'' ([10, 3], 1) [],
      mk_package ''libgfortran'' ([3, 0, 0], 2) [],
      mk_package ''numpy'' ([1, 9, 2], 1)
        [mk_requirement ''libgfortran'' [CompatibleWith ([3, 0, 0], 0)],
         mk_requirement ''MKL'' [EqualTo ([10, 3], 1)]],
      strict_numpy200]"

definition strict_pool :: "enpkg_version Pool" where
  "strict_pool = Pool [strict_repository, []]"

definition strict_request :: "enpkg_version Requirement Request" where
  "strict_request =
     Request_install (mk_requirement ''numpy'' [EqualTo ([2, 0, 0], 1)]) Request_init"

text \<open>
  An example with a provider, beside the tests: package A needs \<^verbatim>\<open>virt\<close>, no package
  is named so, and package B provides it. The algebra takes no requirement for empty.
\<close>

definition virt :: "enpkg_version Requirement" where
  "virt = mk_requirement ''virt'' []"

definition provider_pool :: "enpkg_version Pool" where
  "provider_pool =
     Pool [[mk_package ''A'' ([1], 1) [virt],
            \<lparr>name = ''B'', version = ([1], 1), install_requires = [], conflicts = [],
               provides = [virt]\<rparr>], []]"

definition provider_request :: "enpkg_version Requirement Request" where
  "provider_request = Request_install (mk_requirement ''A'' []) Request_init"

definition first_id_policy :: Policy where
  "first_id_policy = \<lparr>preference = (\<lambda>a v. 0), polarity = (\<lambda>a v. True)\<rparr>"

section \<open>Properties of the request\<close>

lemma jobs_run_call:
  "jobs (run_call c rq) = jobs rq @ (case job_of_call c of None \<Rightarrow> [] | Some j \<Rightarrow> [j])"
  by (cases c)
    (simp_all add: Request_install_def Request_remove_def Request_update_def
      Request_add_job_def Request_allow_newer_def Request_allow_any_def
      Request_allow_older_def)

lemma jobs_run_calls:
  "jobs (run_calls cs rq) = jobs rq @ List.map_filter job_of_call cs"
proof (induction cs arbitrary: rq)
  case Nil
  show ?case by (simp add: List.map_filter_simps)
next
  case (Cons c cs)
  show ?case
    by (cases "job_of_call c") (simp_all add: Cons.IH jobs_run_call List.map_filter_simps)
qed

text \<open>
  Claim C9. A fresh request has no job and three empty ad-hoc sets. Each of
  \<^verbatim>\<open>install\<close>, \<^verbatim>\<open>remove\<close> and \<^verbatim>\<open>update\<close> appends exactly one job, the given
  requirement with the method's own job type, after the jobs already there, which stay
  as they were, and leaves the ad-hoc constraints alone. So after any sequence of
  calls from a fresh request, the jobs are those of the job-adding calls, in call order.
\<close>

theorem request_jobs_in_call_order:
  "jobs (Request_init :: 'r Request) = []
   \<and> allow_newer (adhoc_constraints (Request_init :: 'r Request)) = {}
   \<and> allow_any (adhoc_constraints (Request_init :: 'r Request)) = {}
   \<and> allow_older (adhoc_constraints (Request_init :: 'r Request)) = {}
   \<and> jobs (Request_install req rq) = jobs rq @ [\<lparr>requirement = req, kind = JobType_install\<rparr>]
   \<and> jobs (Request_remove req rq) = jobs rq @ [\<lparr>requirement = req, kind = JobType_remove\<rparr>]
   \<and> jobs (Request_update req rq) = jobs rq @ [\<lparr>requirement = req, kind = JobType_update\<rparr>]
   \<and> adhoc_constraints (Request_install req rq) = adhoc_constraints rq
   \<and> adhoc_constraints (Request_remove req rq) = adhoc_constraints rq
   \<and> adhoc_constraints (Request_update req rq) = adhoc_constraints rq
   \<and> jobs (run_calls cs (Request_init :: 'r Request)) = List.map_filter job_of_call cs"
  by (simp add: jobs_run_calls)
    (simp add: Request_init_def Request_install_def Request_remove_def
      Request_update_def Request_add_job_def)

text \<open>
  Claim C10. \<^verbatim>\<open>targets\<close> is the union of the three sets, and nothing keeps the sets
  disjoint: after two different \<^verbatim>\<open>allow_*\<close> calls with one package name on a
  request, in either order, the name is a member of both sets (and of \<^verbatim>\<open>targets\<close>).
\<close>

theorem adhoc_targets_union_not_disjoint:
  "targets c = allow_newer c \<union> allow_any c \<union> allow_older c
   \<and> n \<in> allow_newer (adhoc_constraints (Request_allow_any n (Request_allow_newer n rq)))
   \<and> n \<in> allow_any (adhoc_constraints (Request_allow_any n (Request_allow_newer n rq)))
   \<and> n \<in> allow_newer (adhoc_constraints (Request_allow_newer n (Request_allow_any n rq)))
   \<and> n \<in> allow_any (adhoc_constraints (Request_allow_newer n (Request_allow_any n rq)))
   \<and> n \<in> allow_newer (adhoc_constraints (Request_allow_older n (Request_allow_newer n rq)))
   \<and> n \<in> allow_older (adhoc_constraints (Request_allow_older n (Request_allow_newer n rq)))
   \<and> n \<in> allow_newer (adhoc_constraints (Request_allow_newer n (Request_allow_older n rq)))
   \<and> n \<in> allow_older (adhoc_constraints (Request_allow_newer n (Request_allow_older n rq)))
   \<and> n \<in> allow_any (adhoc_constraints (Request_allow_older n (Request_allow_any n rq)))
   \<and> n \<in> allow_older (adhoc_constraints (Request_allow_older n (Request_allow_any n rq)))
   \<and> n \<in> allow_any (adhoc_constraints (Request_allow_any n (Request_allow_older n rq)))
   \<and> n \<in> allow_older (adhoc_constraints (Request_allow_any n (Request_allow_older n rq)))
   \<and> n \<in> targets (adhoc_constraints (Request_allow_any n (Request_allow_newer n rq)))"
  by (simp add: targets_def Request_allow_newer_def Request_allow_any_def
      Request_allow_older_def)

section \<open>Properties of the pool, the rules and the search\<close>

lemma set_insert_newest: "set (insert_newest x ys) = insert x (set ys)"
  by (induction ys) auto

lemma set_newest_first: "set (newest_first xs) = set xs"
  by (induction xs) (simp_all add: newest_first_def set_insert_newest)

lemma ids_matching_positive: "i \<in> set (ids_matching alg pool r) \<Longrightarrow> 0 < i"
  by (auto simp: ids_matching_def set_newest_first in_set_enumerate_eq)

lemma in_requirement_pairs:
  "(i, p, r) \<in> set (requirement_pairs pool)
     \<longleftrightarrow> (i, p) \<in> set (enumerate 1 pool) \<and> r \<in> set (install_requires p)"
  by (auto simp: requirement_pairs_def)

lemma dependency_rules_strict:
  "(i, p, r) \<in> set pairs \<Longrightarrow> ids_matching alg pool r = [] \<Longrightarrow>
     \<exists>i' p' r'. dependency_rules True alg pool pairs = Inl (MissingInstallRequires p' r')
        \<and> (i', p', r') \<in> set pairs \<and> ids_matching alg pool r' = []"
proof (induction pairs)
  case Nil
  then show ?case by simp
next
  case (Cons x pairs)
  obtain j q s where x: "x = (j, q, s)" by (cases x) auto
  show ?case
  proof (cases "ids_matching alg pool s = []")
    case True
    then show ?thesis using x by auto
  next
    case False
    with Cons.prems x have "(i, p, r) \<in> set pairs" by auto
    from Cons.IH [OF this Cons.prems(2)] obtain i' p' r' where
      "dependency_rules True alg pool pairs = Inl (MissingInstallRequires p' r')"
      "(i', p', r') \<in> set pairs" "ids_matching alg pool r' = []" by blast
    then show ?thesis using x False by auto
  qed
qed

lemma dependency_rules_lenient:
  "\<exists>cs. dependency_rules False alg pool pairs = Inr cs
     \<and> (\<forall>i p r. (i, p, r) \<in> set pairs \<longrightarrow>
           \<lparr>lits = - int i # map int (ids_matching alg pool r), reason = DependencyRule p r\<rparr>
             \<in> set cs)"
proof (induction pairs)
  case Nil
  show ?case by simp
next
  case (Cons x pairs)
  obtain j q s where x: "x = (j, q, s)" by (cases x) auto
  from Cons.IH obtain cs where
    cs: "dependency_rules False alg pool pairs = Inr cs"
    and mem: "\<forall>i p r. (i, p, r) \<in> set pairs \<longrightarrow>
           \<lparr>lits = - int i # map int (ids_matching alg pool r), reason = DependencyRule p r\<rparr>
             \<in> set cs" by blast
  show ?case using x cs mem by auto
qed

lemma dpll_sound:
  "dpll pol cs vs a = Some m \<Longrightarrow> list_all (clause_satisfied m) cs"
proof (induction pol cs vs a rule: dpll.induct)
  case (1 pol cs vs a)
  let ?v = "decide pol a (unassigned a vs)"
  from "1.prems" have nf: "\<not> list_ex (clause_falsified a) cs"
    by (subst (asm) dpll.simps) (simp split: if_splits)
  show ?case
  proof (cases "find_unit a cs")
    case (Some l)
    from "1.prems" have "dpll pol cs vs (a(lit_var l \<mapsto> 0 < l)) = Some m"
      by (subst (asm) dpll.simps) (simp add: nf Some)
    then show ?thesis by (rule "1.IH"(3) [OF nf Some])
  next
    case None
    show ?thesis
    proof (cases "unassigned a vs = []")
      case True
      from "1.prems" show ?thesis
        by (subst (asm) dpll.simps) (simp add: nf None True split: if_splits)
    next
      case False
      show ?thesis
      proof (cases "dpll pol cs vs (a(?v \<mapsto> polarity pol a ?v))")
        case (Some m')
        from "1.prems" have "m' = m"
          by (subst (asm) dpll.simps) (simp add: nf None False Some)
        with Some have "dpll pol cs vs (a(?v \<mapsto> polarity pol a ?v)) = Some m" by simp
        then show ?thesis by (rule "1.IH"(1) [OF nf None False])
      next
        case None': None
        from "1.prems"
        have "dpll pol cs vs (a(?v \<mapsto> \<not> polarity pol a ?v)) = Some m"
          by (subst (asm) dpll.simps) (simp add: nf None False None')
        then show ?thesis by (rule "1.IH"(2) [OF nf None False None'])
      qed
    qed
  qed
qed

lemma lit_value_pos: "0 < q \<Longrightarrow> lit_value m (int q) = m q"
  by (cases "m q") (simp_all add: lit_value_def lit_var_def)

lemma lit_value_neg: "0 < i \<Longrightarrow> lit_value m (- int i) = map_option Not (m i)"
  by (simp add: lit_value_def lit_var_def)

lemma enumerate_positive: "(i, p) \<in> set (enumerate 1 pool) \<Longrightarrow> 0 < i"
  by (auto simp: in_set_enumerate_eq)

lemma in_pool_enumerate: "p \<in> set pool \<Longrightarrow> \<exists>i. (i, p) \<in> set (enumerate 1 pool)"
proof -
  assume "p \<in> set pool"
  then obtain n where "n < length pool" "pool ! n = p" by (auto simp: in_set_conv_nth)
  then have "(Suc n, p) \<in> set (enumerate 1 pool)" by (auto simp: in_set_enumerate_eq)
  then show ?thesis ..
qed

lemma enumerate_in_pool: "(i, p) \<in> set (enumerate 1 pool) \<Longrightarrow> p \<in> set pool"
  by (auto simp: in_set_enumerate_eq)

lemma dependency_clause_forces:
  assumes sat: "clause_satisfied m
      \<lparr>lits = - int i # map int qs, reason = t\<rparr>"
    and i: "0 < i" and qs: "\<forall>q\<in>set qs. 0 < q \<and> m q \<noteq> Some True"
  shows "m i \<noteq> Some True"
proof
  assume on: "m i = Some True"
  from sat have "lit_value m (- int i) = Some True \<or> (\<exists>q\<in>set qs. lit_value m (int q) = Some True)"
    by (auto simp: clause_satisfied_def list_ex_iff)
  then show False
  proof
    assume "lit_value m (- int i) = Some True"
    with i on show False by (simp add: lit_value_neg)
  next
    assume "\<exists>q\<in>set qs. lit_value m (int q) = Some True"
    then obtain q where "q \<in> set qs" "lit_value m (int q) = Some True" by blast
    with qs show False by (auto simp: lit_value_pos)
  qed
qed

lemma unmet_ids_off:
  assumes mem: "\<forall>i p r. (i, p, r) \<in> set (requirement_pairs pool) \<longrightarrow>
      clause_satisfied m
        \<lparr>lits = - int i # map int (ids_matching alg pool r), reason = DependencyRule p r\<rparr>"
  shows "i \<in> set (unmet_ids alg pool k) \<Longrightarrow> m i \<noteq> Some True"
proof (induction k arbitrary: i)
  case 0
  then show ?case by simp
next
  case (Suc k)
  from Suc.prems obtain p r where
    ip: "(i, p) \<in> set (enumerate 1 pool)" and r: "r \<in> set (install_requires p)"
    and all: "\<forall>q\<in>set (ids_matching alg pool r). q \<in> set (unmet_ids alg pool k)"
    by (auto simp: list_ex_iff list_all_iff)
  have pair: "(i, p, r) \<in> set (requirement_pairs pool)"
    using ip r by (simp add: in_requirement_pairs)
  have qs: "\<forall>q\<in>set (ids_matching alg pool r). 0 < q \<and> m q \<noteq> Some True"
    using all Suc.IH ids_matching_positive by blast
  from mem pair have "clause_satisfied m
        \<lparr>lits = - int i # map int (ids_matching alg pool r), reason = DependencyRule p r\<rparr>"
    by blast
  then show ?case using enumerate_positive [OF ip] qs by (rule dependency_clause_forces)
qed

lemma ids_matching_iff:
  "i \<in> set (ids_matching alg pool r)
     \<longleftrightarrow> 0 < i \<and> i \<le> length pool \<and> is_candidate alg r (pool ! (i - 1))"
proof
  assume "i \<in> set (ids_matching alg pool r)"
  then show "0 < i \<and> i \<le> length pool \<and> is_candidate alg r (pool ! (i - 1))"
    by (auto simp: ids_matching_def set_newest_first in_set_enumerate_eq)
next
  assume h: "0 < i \<and> i \<le> length pool \<and> is_candidate alg r (pool ! (i - 1))"
  then have "(i, pool ! (i - 1)) \<in> set (enumerate 1 pool)"
    by (auto simp: in_set_enumerate_eq)
  with h have "(i, pool ! (i - 1))
      \<in> set (filter (\<lambda>(i, p). is_candidate alg r p) (enumerate 1 pool))" by simp
  then have "fst (i, pool ! (i - 1))
      \<in> fst ` set (filter (\<lambda>(i, p). is_candidate alg r p) (enumerate 1 pool))"
    by (rule imageI)
  then show "i \<in> set (ids_matching alg pool r)"
    by (simp add: ids_matching_def set_newest_first)
qed

lemma provider_is_candidate:
  assumes "0 < i" "i \<le> length pool" "pr \<in> set (provides (pool ! (i - 1)))"
    and "req_name pr = req_name r"
    and "\<not> is_empty alg \<lparr>req_name = req_name pr, constraints = constraints pr @ constraints r\<rparr>"
  shows "i \<in> set (ids_matching alg pool r)"
proof -
  from assms(4,5) have
    "(case intersect pr r of None \<Rightarrow> False | Some x \<Rightarrow> \<not> is_empty alg x)"
    by (simp add: intersect_def)
  with assms(3) have "package_provides alg r (pool ! (i - 1))"
    unfolding package_provides_def list_ex_iff by blast
  with assms(1,2) show ?thesis by (simp add: ids_matching_iff is_candidate_def)
qed

text \<open>
  In the example the provider is the candidate, package A is not unmet, and the solver
  installs both packages in either mode.
\<close>

lemma provider_example_candidates:
  "ids_matching (enpkg_algebra (\<lambda>r. False)) provider_pool virt = [2]
   \<and> unmet_ids (enpkg_algebra (\<lambda>r. False)) provider_pool 3 = []"
  by code_simp

lemma provider_example_solve:
  "solve (\<lambda>a. map a [1, 2]) first_id_policy False (enpkg_algebra (\<lambda>r. False))
       provider_pool [] provider_request = Inr [Some True, Some True]
   \<and> solve (\<lambda>a. map a [1, 2]) first_id_policy True (enpkg_algebra (\<lambda>r. False))
       provider_pool [] provider_request = Inr [Some True, Some True]"
  by code_simp

section \<open>Missing dependencies\<close>

lemma job_rules_install:
  "kind j = JobType_install \<Longrightarrow> job_rules alg pool installed j = [install_rule alg pool j]"
  by simp

text \<open>
  Claim C3. In non-strict mode, when every candidate of an install job of the request
  (by name and version or by what it provides) lacks a candidate for one of its
  requirements, directly or through the candidates of
  that requirement to any depth \<open>k\<close> (also when the job has no candidate at all),
  \<^verbatim>\<open>solve\<close> raises \<^verbatim>\<open>SatisfiabilityError\<close> and returns no transaction, whatever
  the policy, the installed packages and the other jobs.
\<close>

theorem nonstrict_unmet_install_unsatisfiable:
  assumes j: "j \<in> set (jobs request)" and kj: "kind j = JobType_install"
    and u: "list_all (\<lambda>q. q \<in> set (unmet_ids alg pool k))
              (ids_matching alg pool (requirement j))"
  shows "solve build pol False alg pool installed request = Inl SatisfiabilityError"
proof -
  obtain deps where
    deps: "dependency_rules False alg pool (requirement_pairs pool) = Inr deps"
    and mem: "\<forall>i p r. (i, p, r) \<in> set (requirement_pairs pool) \<longrightarrow>
           \<lparr>lits = - int i # map int (ids_matching alg pool r), reason = DependencyRule p r\<rparr>
             \<in> set deps"
    using dependency_rules_lenient [of alg pool "requirement_pairs pool"] by blast
  define jcs where "jcs = concat (map (job_rules alg pool installed) (jobs request))"
  define cs where "cs = deps @ conflict_rules alg pool @ same_name_rules pool @ jcs"
  have gen: "generate_rules False alg pool installed request = Inr cs"
    by (simp add: generate_rules_def deps cs_def jcs_def)
  have "install_rule alg pool j \<in> set (job_rules alg pool installed j)"
    using kj by (simp only: job_rules_install list.set_intros)
  with j have "install_rule alg pool j \<in> set jcs"
    unfolding jcs_def set_concat set_map by blast
  then have job: "install_rule alg pool j \<in> set cs" by (simp add: cs_def)
  have depsub: "set deps \<subseteq> set cs" by (simp add: cs_def)
  have unsat: "dpll pol cs (pool_ids pool) Map.empty = None"
  proof (cases "dpll pol cs (pool_ids pool) Map.empty")
    case None
    then show ?thesis .
  next
    case (Some m)
    then have "list_all (clause_satisfied m) cs" by (rule dpll_sound)
    then have sat: "\<And>c. c \<in> set cs \<Longrightarrow> clause_satisfied m c"
      by (simp add: list_all_iff)
    have "\<forall>i p r. (i, p, r) \<in> set (requirement_pairs pool) \<longrightarrow>
      clause_satisfied m
        \<lparr>lits = - int i # map int (ids_matching alg pool r), reason = DependencyRule p r\<rparr>"
      using mem depsub sat by blast
    then have off: "i \<in> set (unmet_ids alg pool k) \<Longrightarrow> m i \<noteq> Some True" for i
      by (rule unmet_ids_off)
    from job have "clause_satisfied m (install_rule alg pool j)" by (rule sat)
    then obtain q where q: "q \<in> set (ids_matching alg pool (requirement j))"
      and on: "lit_value m (int q) = Some True"
      by (auto simp: clause_satisfied_def install_rule_def list_ex_iff)
    from q u have "q \<in> set (unmet_ids alg pool k)" by (simp add: list_all_iff)
    then have "m q \<noteq> Some True" by (rule off)
    with on ids_matching_positive [OF q] have False by (simp add: lit_value_pos)
    then show ?thesis ..
  qed
  show ?thesis by (simp add: solve_def gen unsat)
qed

lemma generate_rules_lenient_unit:
  assumes pair: "(i, p, r) \<in> set (requirement_pairs pool)"
    and none: "ids_matching alg pool r = []"
  shows "\<exists>cs. generate_rules False alg pool installed request = Inr cs
      \<and> \<lparr>lits = [- int i], reason = DependencyRule p r\<rparr> \<in> set cs"
proof -
  obtain deps where
    deps: "dependency_rules False alg pool (requirement_pairs pool) = Inr deps"
    and mem: "\<forall>i p r. (i, p, r) \<in> set (requirement_pairs pool) \<longrightarrow>
           \<lparr>lits = - int i # map int (ids_matching alg pool r), reason = DependencyRule p r\<rparr>
             \<in> set deps"
    using dependency_rules_lenient [of alg pool "requirement_pairs pool"] by blast
  from mem pair have "\<lparr>lits = - int i # map int (ids_matching alg pool r),
      reason = DependencyRule p r\<rparr> \<in> set deps" by blast
  then have u: "\<lparr>lits = [- int i], reason = DependencyRule p r\<rparr> \<in> set deps"
    by (simp add: none)
  have "generate_rules False alg pool installed request
        = Inr (deps @ conflict_rules alg pool @ same_name_rules pool
               @ concat (map (job_rules alg pool installed) (jobs request)))"
    by (simp add: generate_rules_def deps)
  moreover from u have "\<lparr>lits = [- int i], reason = DependencyRule p r\<rparr>
      \<in> set (deps @ conflict_rules alg pool @ same_name_rules pool
               @ concat (map (job_rules alg pool installed) (jobs request)))" by simp
  ultimately show ?thesis by (intro exI conjI)
qed

text \<open>
  Claim C4. In strict mode, when a package of the pool has a requirement in its
  \<^verbatim>\<open>install_requires\<close> without candidate (no package of the pool matches it by
  name and version, and none provides it), the rules generator itself
  fails with \<^verbatim>\<open>MissingInstallRequires\<close> for such a package and requirement, and
  \<^verbatim>\<open>solve\<close> raises that failure without a search. In non-strict mode the same pool
  gives the clauses, the unit clause against the id of the package among them.
\<close>

theorem strict_missing_install_requires:
  assumes p: "p \<in> set pool" and r: "r \<in> set (install_requires p)"
    and none: "ids_matching alg pool r = []"
  shows "\<exists>p' r'. p' \<in> set pool \<and> r' \<in> set (install_requires p')
           \<and> ids_matching alg pool r' = []
           \<and> generate_rules True alg pool installed request
               = Inl (MissingInstallRequires p' r')
           \<and> solve build pol True alg pool installed request
               = Inl (MissingInstallRequires p' r')
           \<and> (\<exists>cs i. 0 < i \<and> i \<le> length pool \<and> pool ! (i - 1) = p
                  \<and> generate_rules False alg pool installed request = Inr cs
                  \<and> \<lparr>lits = [- int i], reason = DependencyRule p r\<rparr> \<in> set cs)"
proof -
  from in_pool_enumerate [OF p] obtain i where ip: "(i, p) \<in> set (enumerate 1 pool)" ..
  with r have pr: "(i, p, r) \<in> set (requirement_pairs pool)"
    by (simp add: in_requirement_pairs)
  from dependency_rules_strict [OF pr none] obtain i' p' r' where
    e: "dependency_rules True alg pool (requirement_pairs pool)
          = Inl (MissingInstallRequires p' r')"
    and pair: "(i', p', r') \<in> set (requirement_pairs pool)"
    and none': "ids_matching alg pool r' = []" by blast
  from pair have ip': "(i', p') \<in> set (enumerate 1 pool)" and r': "r' \<in> set (install_requires p')"
    by (simp_all add: in_requirement_pairs)
  from ip' have p': "p' \<in> set pool" by (rule enumerate_in_pool)
  have g: "generate_rules True alg pool installed request
      = Inl (MissingInstallRequires p' r')"
    by (simp add: generate_rules_def e)
  have s: "solve build pol True alg pool installed request
      = Inl (MissingInstallRequires p' r')"
    by (simp add: solve_def g)
  from generate_rules_lenient_unit [OF pr none, of installed request] obtain cs where
    "generate_rules False alg pool installed request = Inr cs"
    "\<lparr>lits = [- int i], reason = DependencyRule p r\<rparr> \<in> set cs" by blast
  moreover from ip have "0 < i" "i \<le> length pool" "pool ! (i - 1) = p"
    by (auto simp: in_set_enumerate_eq)
  ultimately have l: "\<exists>cs i. 0 < i \<and> i \<le> length pool \<and> pool ! (i - 1) = p
      \<and> generate_rules False alg pool installed request = Inr cs
      \<and> \<lparr>lits = [- int i], reason = DependencyRule p r\<rparr> \<in> set cs"
    by blast
  show ?thesis
    by (rule exI [of _ p'], rule exI [of _ r']) (simp only: p' r' none' g s l simp_thms)
qed

text \<open>
  The theorem of claim C3 at \<^verbatim>\<open>test_missing_indirect_dependency_fails\<close>: numpy 2.0.0-1,
  the one candidate of the job, needs MKL, whose one candidate needs MISSING.
\<close>

theorem nonstrict_unmet_install_unsatisfiable_witness:
  "\<forall>e. \<lparr>requirement = numpy_ge_2_0, kind = JobType_install\<rparr> \<in> set (jobs indirect_request)
   \<and> kind \<lparr>requirement = numpy_ge_2_0, kind = JobType_install\<rparr> = JobType_install
   \<and> ids_matching (enpkg_algebra e) indirect_pool numpy_ge_2_0 = [3]
   \<and> list_all (\<lambda>q. q \<in> set (unmet_ids (enpkg_algebra e) indirect_pool 2))
        (ids_matching (enpkg_algebra e) indirect_pool
           (requirement \<lparr>requirement = numpy_ge_2_0, kind = JobType_install\<rparr>))
   \<and> (\<forall>(build :: assignment \<Rightarrow> unit) pol.
         solve build pol False (enpkg_algebra e) indirect_pool [] indirect_request
           = Inl SatisfiabilityError)"
proof
  fix e
  let ?j = "\<lparr>requirement = numpy_ge_2_0, kind = JobType_install\<rparr>"
  let ?alg = "enpkg_algebra e"
  have j: "?j \<in> set (jobs indirect_request)"
    by (simp add: indirect_request_def Request_install_def Request_add_job_def
        Request_init_def)
  have kj: "kind ?j = JobType_install" by simp
  have ids: "ids_matching ?alg indirect_pool numpy_ge_2_0 = [3]" by code_simp
  have u: "list_all (\<lambda>q. q \<in> set (unmet_ids ?alg indirect_pool 2))
        (ids_matching ?alg indirect_pool (requirement ?j))" by code_simp
  have "solve build pol False ?alg indirect_pool [] indirect_request = Inl SatisfiabilityError"
    for build :: "assignment \<Rightarrow> unit" and pol
    using j kj u by (rule nonstrict_unmet_install_unsatisfiable)
  with j kj ids u show "?j \<in> set (jobs indirect_request)
   \<and> kind ?j = JobType_install
   \<and> ids_matching ?alg indirect_pool numpy_ge_2_0 = [3]
   \<and> list_all (\<lambda>q. q \<in> set (unmet_ids ?alg indirect_pool 2))
        (ids_matching ?alg indirect_pool (requirement ?j))
   \<and> (\<forall>(build :: assignment \<Rightarrow> unit) pol.
         solve build pol False ?alg indirect_pool [] indirect_request
           = Inl SatisfiabilityError)" by blast
qed

text \<open>
  The theorem of claim C4 at \<^verbatim>\<open>test_missing_dependency_strict\<close>: numpy 2.0.0-1 needs
  \<^verbatim>\<open>nonexistent\<close>, which no package of the pool matches or provides.
\<close>

theorem strict_missing_install_requires_witness:
  "\<forall>e. strict_numpy200 \<in> set strict_pool
   \<and> nonexistent \<in> set (install_requires strict_numpy200)
   \<and> ids_matching (enpkg_algebra e) strict_pool nonexistent = []
   \<and> (\<forall>(build :: assignment \<Rightarrow> unit) pol.
         solve build pol True (enpkg_algebra e) strict_pool [] strict_request
           = Inl (MissingInstallRequires strict_numpy200 nonexistent))"
proof
  fix e
  let ?alg = "enpkg_algebra e"
  have p: "strict_numpy200 \<in> set strict_pool" by code_simp
  have r: "nonexistent \<in> set (install_requires strict_numpy200)" by code_simp
  have none: "ids_matching ?alg strict_pool nonexistent = []" by code_simp
  have g: "generate_rules True ?alg strict_pool [] strict_request
      = Inl (MissingInstallRequires strict_numpy200 nonexistent)" by code_simp
  have "solve build pol True ?alg strict_pool [] strict_request
      = Inl (MissingInstallRequires strict_numpy200 nonexistent)"
    for build :: "assignment \<Rightarrow> unit" and pol
  proof -
    from strict_missing_install_requires [OF p r none,
        where installed = "[]" and request = strict_request and build = build and pol = pol]
    obtain p' r' where
      g': "generate_rules True ?alg strict_pool [] strict_request
            = Inl (MissingInstallRequires p' r')"
      and s': "solve build pol True ?alg strict_pool [] strict_request
            = Inl (MissingInstallRequires p' r')" by blast
    from g g' have "p' = strict_numpy200" "r' = nonexistent" by simp_all
    with s' show ?thesis by simp
  qed
  with p r none show "strict_numpy200 \<in> set strict_pool
   \<and> nonexistent \<in> set (install_requires strict_numpy200)
   \<and> ids_matching ?alg strict_pool nonexistent = []
   \<and> (\<forall>(build :: assignment \<Rightarrow> unit) pol.
         solve build pol True ?alg strict_pool [] strict_request
           = Inl (MissingInstallRequires strict_numpy200 nonexistent))" by blast
qed

end
